theory Spec2Isabelle
  imports Complex_Main "HOL-Library.Sublist"
begin

section \<open>Runtime library: strings and arrays\<close>

text \<open>
  Strings are lists of code units; the alphabet is the 8-bit \<^typ>\<open>char\<close>, which covers
  every literal of the program. The functions below are the JavaScript built-ins the
  program calls, written out for the way it calls them (a one-character separator, a
  slice that starts at index 0 or elsewhere, a comparator that returns a number).
\<close>

fun startsWith :: "string \<Rightarrow> string \<Rightarrow> bool" where
  "startsWith s [] = True"
| "startsWith [] (p # ps) = False"
| "startsWith (c # cs) (p # ps) = (c = p \<and> startsWith cs ps)"

text \<open>\<^verbatim>\<open>s.includes(sub)\<close>: some suffix of \<open>s\<close> starts with \<open>sub\<close>.\<close>

fun includes' :: "string \<Rightarrow> string \<Rightarrow> bool" where
  "includes' [] sub = (sub = [])"
| "includes' (c # cs) sub = (startsWith (c # cs) sub \<or> includes' cs sub)"

text \<open>\<^verbatim>\<open>xs.join(sep)\<close>.\<close>

fun join :: "string \<Rightarrow> string list \<Rightarrow> string" where
  "join sep [] = []"
| "join sep [x] = x"
| "join sep (x # y # ys) = x @ sep @ join sep (y # ys)"

text \<open>
  \<^verbatim>\<open>xs.slice(start, end)\<close> for integral arguments: a negative index counts from the
  end of the array, and both ends are clamped into \<open>0..length\<close>. Nothing is raised.
\<close>

definition slice :: "'a list \<Rightarrow> int \<Rightarrow> int \<Rightarrow> 'a list" where
  "slice xs start end' =
     (let len = int (length xs);
          k = (if start < 0 then max (len + start) 0 else min start len);
          final = (if end' < 0 then max (len + end') 0 else min end' len)
      in take (nat (max (final - k) 0)) (drop (nat k) xs))"

text \<open>
  \<^verbatim>\<open>xs.sort(cmp)\<close>. The language fixes the result for a consistent comparator: the
  elements in the order of \<open>cmp\<close>, elements that compare equal in their original order
  (the sort is stable since ECMAScript 2019). Insertion from the right computes it: an
  element goes in front of the first one it does not have to follow.
\<close>

fun insort_cmp :: "('a \<Rightarrow> 'a \<Rightarrow> int) \<Rightarrow> 'a \<Rightarrow> 'a list \<Rightarrow> 'a list" where
  "insort_cmp cmp x [] = [x]"
| "insort_cmp cmp x (y # ys) =
     (if cmp x y \<le> 0 then x # y # ys else y # insort_cmp cmp x ys)"

definition sort_cmp :: "('a \<Rightarrow> 'a \<Rightarrow> int) \<Rightarrow> 'a list \<Rightarrow> 'a list" where
  "sort_cmp cmp xs = foldr (insort_cmp cmp) xs []"

text \<open>\<^verbatim>\<open>Math.round\<close>: the nearest integer, a half rounded towards plus infinity.\<close>

definition Math_round :: "real \<Rightarrow> int" where
  "Math_round x = \<lfloor>x + 1 / 2\<rfloor>"

section \<open>Activity suitability scoring engine\<close>

text \<open>
  The numeric fields of a forecast day and of an activity are GraphQL \<open>Float\<close> and
  \<open>Int\<close> values, which are finite; they are modelled as \<^typ>\<open>real\<close> and \<^typ>\<open>int\<close>,
  and the arithmetic of the engine is taken exactly.
\<close>

record ActivityConfig =
  name :: string
  idealTempMin :: real
  idealTempMax :: real
  rainTolerance :: real
  windPreference :: real

record Activity =
  name :: string
  suitabilityScore :: int
  reasoning :: string

text \<open>A forecast day without its \<open>activities\<close> field, the argument of the ranking.\<close>

record DailyForecastSummary =
  date :: string
  maxTemp :: real
  minTemp :: real
  conditions :: string
  precipitation :: real
  windSpeed :: real

definition ACTIVITY_CONFIGS :: "ActivityConfig list" where
  "ACTIVITY_CONFIGS =
     [\<lparr>ActivityConfig.name = ''skiing'', idealTempMin = -10, idealTempMax = 2,
        rainTolerance = 0.1, windPreference = 0.2\<rparr>,
      \<lparr>ActivityConfig.name = ''surfing'', idealTempMin = 18, idealTempMax = 28,
        rainTolerance = 0.7, windPreference = 0.8\<rparr>,
      \<lparr>ActivityConfig.name = ''indoor_sightseeing'', idealTempMin = 10, idealTempMax = 30,
        rainTolerance = 1.0, windPreference = 0.5\<rparr>,
      \<lparr>ActivityConfig.name = ''outdoor_sightseeing'', idealTempMin = 15, idealTempMax = 25,
        rainTolerance = 0.1, windPreference = 0.3\<rparr>]"

named_theorems engine_constants \<open>the constants of ActivityRankingService\<close>

definition BASE_SCORE :: real where [engine_constants]: "BASE_SCORE = 50"
definition IDEAL_TEMP_BONUS :: real where [engine_constants]: "IDEAL_TEMP_BONUS = 30"
definition COLD_PENALTY_MULTIPLIER :: real where [engine_constants]: "COLD_PENALTY_MULTIPLIER = 5"
definition WARM_PENALTY_MULTIPLIER :: real where [engine_constants]: "WARM_PENALTY_MULTIPLIER = 5"
definition MAX_TEMP_PENALTY :: real where [engine_constants]: "MAX_TEMP_PENALTY = 30"
definition RAIN_IMPACT_MULTIPLIER :: real where [engine_constants]: "RAIN_IMPACT_MULTIPLIER = 20"
definition HIGH_TOLERANCE_BONUS :: real where [engine_constants]: "HIGH_TOLERANCE_BONUS = 10"
definition LOW_TOLERANCE_BONUS :: real where [engine_constants]: "LOW_TOLERANCE_BONUS = 10"
definition HIGH_TOLERANCE_THRESHOLD :: real where [engine_constants]: "HIGH_TOLERANCE_THRESHOLD = 0.8"
definition LOW_TOLERANCE_THRESHOLD :: real where [engine_constants]: "LOW_TOLERANCE_THRESHOLD = 0.3"
definition WIND_IMPACT_MULTIPLIER :: real where [engine_constants]: "WIND_IMPACT_MULTIPLIER = 15"
definition WIND_OFFSET :: real where [engine_constants]: "WIND_OFFSET = 7.5"
definition HIGH_PREFERENCE_THRESHOLD :: real where [engine_constants]: "HIGH_PREFERENCE_THRESHOLD = 0.6"
definition LOW_PREFERENCE_THRESHOLD :: real where [engine_constants]: "LOW_PREFERENCE_THRESHOLD = 0.4"
definition EXTREME_WEATHER_BONUS :: real where [engine_constants]: "EXTREME_WEATHER_BONUS = 15"
definition COLD_THRESHOLD :: real where [engine_constants]: "COLD_THRESHOLD = 10"
definition HOT_THRESHOLD :: real where [engine_constants]: "HOT_THRESHOLD = 30"
definition RAIN_THRESHOLD :: real where [engine_constants]: "RAIN_THRESHOLD = 1"
definition WIND_THRESHOLD :: real where [engine_constants]: "WIND_THRESHOLD = 20"
definition MIN_SCORE :: int where [engine_constants]: "MIN_SCORE = 0"
definition MAX_SCORE :: int where [engine_constants]: "MAX_SCORE = 100"

text \<open>
  \<open>scoreActivity\<close> updates two locals, \<open>score\<close> and \<open>reasons\<close>, in four consecutive
  blocks. Each block is a function on the pair of them, in the order of the source.
\<close>

type_synonym scoring = "real \<times> string list"

definition temperatureTerm :: "ActivityConfig \<Rightarrow> real \<Rightarrow> scoring \<Rightarrow> scoring" where
  "temperatureTerm config avgTemp = (\<lambda>(score, reasons).
     if avgTemp \<ge> idealTempMin config \<and> avgTemp \<le> idealTempMax config then
       (score + IDEAL_TEMP_BONUS, reasons @ [''ideal temperature''])
     else if avgTemp < idealTempMin config then
       (let penalty = min MAX_TEMP_PENALTY ((idealTempMin config - avgTemp) * COLD_PENALTY_MULTIPLIER)
        in (score - penalty, reasons @ [''too cold'']))
     else
       (let penalty = min MAX_TEMP_PENALTY ((avgTemp - idealTempMax config) * WARM_PENALTY_MULTIPLIER)
        in (score - penalty, reasons @ [''too warm''])))"

definition rainTerm :: "ActivityConfig \<Rightarrow> bool \<Rightarrow> scoring \<Rightarrow> scoring" where
  "rainTerm config hasRain = (\<lambda>(score, reasons).
     if hasRain then
       (let rainImpact = (1 - rainTolerance config) * RAIN_IMPACT_MULTIPLIER;
            score = score - rainImpact
        in if rainTolerance config > HIGH_TOLERANCE_THRESHOLD then
             (score + HIGH_TOLERANCE_BONUS, reasons @ [''rain makes it more appealing''])
           else if rainTolerance config < LOW_TOLERANCE_THRESHOLD then
             (score, reasons @ [''rain not ideal''])
           else (score, reasons))
     else if rainTolerance config < LOW_TOLERANCE_THRESHOLD then
       (score + LOW_TOLERANCE_BONUS, reasons @ [''no rain''])
     else (score, reasons))"

definition windTerm :: "ActivityConfig \<Rightarrow> bool \<Rightarrow> scoring \<Rightarrow> scoring" where
  "windTerm config isWindy = (\<lambda>(score, reasons).
     if isWindy then
       (let windImpact = windPreference config * WIND_IMPACT_MULTIPLIER - WIND_OFFSET;
            score = score + windImpact
        in if windPreference config > HIGH_PREFERENCE_THRESHOLD then
             (score, reasons @ [''good wind conditions''])
           else if windPreference config < LOW_PREFERENCE_THRESHOLD then
             (score, reasons @ [''windy conditions''])
           else (score, reasons))
     else (score, reasons))"

definition indoorTerm :: "ActivityConfig \<Rightarrow> real \<Rightarrow> scoring \<Rightarrow> scoring" where
  "indoorTerm config avgTemp = (\<lambda>(score, reasons).
     if includes' (ActivityConfig.name config) ''indoor'' then
       (if avgTemp < COLD_THRESHOLD \<or> avgTemp > HOT_THRESHOLD then
          (score + EXTREME_WEATHER_BONUS, reasons @ [''extreme weather favors indoor activities''])
        else (score, reasons))
     else (score, reasons))"

text \<open>
  The last two parameters are unused in the source as well. An empty string is falsy, so
  \<^verbatim>\<open>reasons.join(', ') || 'standard conditions'\<close> is the joined text unless that is empty.
\<close>

definition scoreActivity ::
  "ActivityConfig \<Rightarrow> real \<Rightarrow> bool \<Rightarrow> bool \<Rightarrow> real \<Rightarrow> real \<Rightarrow> Activity" where
  "scoreActivity config avgTemp hasRain isWindy precipitation' windSpeed' =
     (let (score, reasons) =
            indoorTerm config avgTemp
              (windTerm config isWindy
                (rainTerm config hasRain
                  (temperatureTerm config avgTemp (BASE_SCORE, []))));
          joined = join '', '' reasons
      in \<lparr>Activity.name = ActivityConfig.name config,
          suitabilityScore = max MIN_SCORE (min MAX_SCORE (Math_round score)),
          reasoning = (if joined = [] then ''standard conditions'' else joined)\<rparr>)"

text \<open>
  The comparator of the ranking, \<^verbatim>\<open>(a, b) => b.suitabilityScore - a.suitabilityScore\<close>.
\<close>

definition byScoreDescending :: "Activity \<Rightarrow> Activity \<Rightarrow> int" where
  "byScoreDescending a b = suitabilityScore b - suitabilityScore a"

text \<open>The scored profiles before sorting: the local \<open>activities\<close> of the source.\<close>

definition scoredActivities :: "DailyForecastSummary \<Rightarrow> Activity list" where
  "scoredActivities forecast =
     (let avgTemp = (maxTemp forecast + minTemp forecast) / 2;
          hasRain = precipitation forecast > RAIN_THRESHOLD;
          isWindy = windSpeed forecast > WIND_THRESHOLD
      in map (\<lambda>config. scoreActivity config avgTemp hasRain isWindy
                 (precipitation forecast) (windSpeed forecast))
           ACTIVITY_CONFIGS)"

text \<open>
  \<open>rankActivitiesForDay(forecast, top)\<close>; a caller that leaves \<open>top\<close> out passes 1. The
  claims range over integral \<open>top\<close>.
\<close>

definition rankActivitiesForDay :: "DailyForecastSummary \<Rightarrow> int \<Rightarrow> Activity list" where
  "rankActivitiesForDay forecast top' =
     slice (sort_cmp byScoreDescending (scoredActivities forecast)) 0 top'"

section \<open>Runtime library: numbers and their text\<close>

text \<open>
  Where the program tests a number for \<open>NaN\<close> or compares a parsed one, the number is a
  JavaScript \<open>number\<close> with its three non-finite values. Finite values are taken as
  exact reals: the rounding of a decimal text to the nearest double is not modelled.
\<close>

datatype number = NaN | PosInfinity | NegInfinity | Finite real

fun isNaN :: "number \<Rightarrow> bool" where
  "isNaN NaN = True"
| "isNaN x = False"

text \<open>\<open>a <= b\<close>, false as soon as either side is \<open>NaN\<close>; \<open>a >= b\<close> is \<open>b <= a\<close>.\<close>

fun number_le :: "number \<Rightarrow> number \<Rightarrow> bool" where
  "number_le NaN b = False"
| "number_le a NaN = False"
| "number_le NegInfinity b = True"
| "number_le a PosInfinity = True"
| "number_le (Finite x) (Finite y) = (x \<le> y)"
| "number_le PosInfinity b = False"
| "number_le a NegInfinity = False"

definition number_ge :: "number \<Rightarrow> number \<Rightarrow> bool" where
  "number_ge a b = number_le b a"

fun negate :: "number \<Rightarrow> number" where
  "negate NaN = NaN"
| "negate PosInfinity = NegInfinity"
| "negate NegInfinity = PosInfinity"
| "negate (Finite x) = Finite (- x)"

text \<open>
  White space and line terminators within the 8-bit alphabet: TAB, LF, VT, FF, CR, SP
  and NBSP.
\<close>

definition isWhiteSpace :: "char \<Rightarrow> bool" where
  "isWhiteSpace c =
     (c \<in> set [CHR 0x09, CHR 0x0A, CHR 0x0B, CHR 0x0C, CHR 0x0D, CHR 0x20, CHR 0xA0])"

text \<open>\<^verbatim>\<open>s.trim()\<close>.\<close>

definition trim :: "string \<Rightarrow> string" where
  "trim s = rev (dropWhile isWhiteSpace (rev (dropWhile isWhiteSpace s)))"

definition isDigit :: "char \<Rightarrow> bool" where
  "isDigit c = (48 \<le> (of_char c :: nat) \<and> (of_char c :: nat) \<le> 57)"

definition digitsValue :: "string \<Rightarrow> nat" where
  "digitsValue ds = foldl (\<lambda>n c. 10 * n + (of_char c - 48)) 0 ds"

text \<open>
  \<^verbatim>\<open>parseFloat(s)\<close> skips leading white space and reads the longest prefix that is a
  decimal literal: an optional sign, then \<open>Infinity\<close> or digits with an optional fraction
  and an optional exponent. What follows the prefix is ignored; with no such prefix the
  result is \<open>NaN\<close>. An exponent indicator counts only when digits follow it.
\<close>

definition parseExponent :: "string \<Rightarrow> int" where
  "parseExponent s =
     (case s of
        [] \<Rightarrow> 0
      | c # r \<Rightarrow>
          if c = CHR ''e'' \<or> c = CHR ''E'' then
            (let (negative, r') =
                   (case r of
                      [] \<Rightarrow> (False, r)
                    | d # r'' \<Rightarrow>
                        if d = CHR ''-'' then (True, r'')
                        else if d = CHR ''+'' then (False, r'')
                        else (False, r));
                 ds = takeWhile isDigit r'
             in if ds = [] then 0
                else if negative then - int (digitsValue ds)
                else int (digitsValue ds))
          else 0)"

definition parseUnsigned :: "string \<Rightarrow> number" where
  "parseUnsigned s =
     (if startsWith s ''Infinity'' then PosInfinity
      else
        (let ip = takeWhile isDigit s;
             r1 = dropWhile isDigit s;
             (fp, r2) =
               (case r1 of
                  [] \<Rightarrow> ([], r1)
                | c # r \<Rightarrow>
                    if c = CHR ''.'' then (takeWhile isDigit r, dropWhile isDigit r)
                    else ([], r1))
         in if ip = [] \<and> fp = [] then NaN
            else
              (let m = real (digitsValue ip) + real (digitsValue fp) / 10 ^ length fp;
                   e = parseExponent r2
               in Finite (if e \<ge> 0 then m * 10 ^ nat e else m / 10 ^ nat (- e)))))"

definition parseFloat :: "string \<Rightarrow> number" where
  "parseFloat s =
     (case dropWhile isWhiteSpace s of
        [] \<Rightarrow> NaN
      | c # r \<Rightarrow>
          if c = CHR ''-'' then negate (parseUnsigned r)
          else if c = CHR ''+'' then parseUnsigned r
          else parseUnsigned (c # r))"

text \<open>
  \<^verbatim>\<open>s.split(sep)\<close> for a separator of one character: the pieces between the
  separators, always at least one piece.
\<close>

fun split :: "char \<Rightarrow> string \<Rightarrow> string list" where
  "split sep [] = [[]]"
| "split sep (c # cs) =
     (if c = sep then [] # split sep cs
      else (case split sep cs of
              [] \<Rightarrow> [[c]]
            | p # ps \<Rightarrow> (c # p) # ps))"

text \<open>\<open>xs[i]\<close>, \<open>undefined\<close> beyond the end of the array.\<close>

definition element :: "'a list \<Rightarrow> nat \<Rightarrow> 'a option" where
  "element xs i = (if i < length xs then Some (xs ! i) else None)"

text \<open>\<open>!s\<close> for a string that may be \<open>undefined\<close>: only the empty string is falsy.\<close>

fun falsy :: "string option \<Rightarrow> bool" where
  "falsy None = True"
| "falsy (Some s) = (s = [])"

section \<open>Errors\<close>

text \<open>
  \<open>ERROR_CODES\<close>, all groups together: the codes an \<open>OpenMeteoAPIError\<close> can carry.
\<close>

datatype ErrorCode =
    RATE_LIMIT_EXCEEDED | TIMEOUT | UNKNOWN_ERROR
  | INTERNAL_SERVER_ERROR
  | INVALID_COORDINATES | BAD_USER_INPUT

text \<open>
  What \<open>axios.get\<close> can reject with: an Axios error, with its optional \<open>code\<close>, the
  status and status text of its optional \<open>response\<close>, and its message, or anything else.
\<close>

datatype thrown =
    AxiosError "string option" "(nat \<times> string) option" string
  | OtherError

record OpenMeteoAPIError =
  message :: string
  code :: ErrorCode
  cause :: "thrown option"

section \<open>Rich city identifier codec\<close>

record GeocodingResult =
  name :: string
  latitude :: number
  longitude :: number
  country :: string
  feature_code :: string

record GeocodingResponse =
  results :: "GeocodingResult list option"
  generationtime_ms :: real

record City =
  id' :: string
  name :: string
  country :: string
  latitude :: number
  longitude :: number

text \<open>A city without its id, the result of \<open>parseCityId\<close>.\<close>

record CityInfo =
  latitude :: number
  longitude :: number
  name :: string
  country :: string

definition isValidCoordinate :: "number \<Rightarrow> number \<Rightarrow> bool" where
  "isValidCoordinate latitude' longitude' =
     (\<not> isNaN latitude' \<and> \<not> isNaN longitude'
      \<and> number_ge latitude' (Finite (- 90)) \<and> number_le latitude' (Finite 90)
      \<and> number_ge longitude' (Finite (- 180)) \<and> number_le longitude' (Finite 180))"

definition formatError :: OpenMeteoAPIError where
  "formatError =
     \<lparr>message = ''Invalid city ID format. Expected format: '' @ [CHR 0x22] @ ''lat,lon:name:country'' @ [CHR 0x22],
      code = INVALID_COORDINATES, cause = None\<rparr>"

definition missingCoordinateError :: OpenMeteoAPIError where
  "missingCoordinateError =
     \<lparr>message = ''Invalid coordinates in city ID. Expected format: '' @ [CHR 0x22] @ ''lat,lon'' @ [CHR 0x22],
      code = INVALID_COORDINATES, cause = None\<rparr>"

definition invalidCoordinateError :: OpenMeteoAPIError where
  "invalidCoordinateError =
     \<lparr>message = ''Invalid coordinates in city ID. Expected valid coordinates in the format: ''
                 @ [CHR 0x22] @ ''lat,lon'' @ [CHR 0x22],
      code = INVALID_COORDINATES, cause = None\<rparr>"

text \<open>
  \<open>parseCityId\<close>. The three \<open>throw\<close> statements are the three \<open>Inl\<close> results, in the
  order of the source. \<open>[latStr, lonStr] = coords.split(',')\<close> takes the first two
  pieces, \<open>undefined\<close> where there is none, and ignores any further piece. Past the
  test for a missing string both are defined, so \<^const>\<open>the\<close> reads a \<open>Some\<close>.
\<close>

definition parseCityId :: "string \<Rightarrow> OpenMeteoAPIError + CityInfo" where
  "parseCityId cityId =
     (let parts = split CHR '':'' cityId
      in if length parts \<noteq> 3 then Inl formatError
         else
           (let coords = parts ! 0; name' = parts ! 1; country' = parts ! 2;
                latStr = element (split CHR '','' coords) 0;
                lonStr = element (split CHR '','' coords) 1
            in if falsy latStr \<or> falsy lonStr then Inl missingCoordinateError
               else
                 (let latitude' = parseFloat (the latStr);
                      longitude' = parseFloat (the lonStr)
                  in if \<not> isValidCoordinate latitude' longitude' then Inl invalidCoordinateError
                     else Inr \<lparr>CityInfo.latitude = latitude', longitude = longitude',
                               name = name', country = country'\<rparr>)))"

section \<open>Geocoding adapter\<close>

definition GEOCODING_BASE_URL :: string where
  "GEOCODING_BASE_URL = ''https://geocoding-api.open-meteo.com/v1''"

definition REQUEST_TIMEOUT_MS :: nat where
  "REQUEST_TIMEOUT_MS = 10000"

definition MAX_RESULTS :: nat where
  "MAX_RESULTS = 10"

text \<open>The request \<open>searchCities\<close> hands to \<open>axios.get\<close>: the URL, the parameters, the timeout.\<close>

record GeocodingRequest =
  url :: string
  name :: string
  count :: nat
  language :: string
  format :: string
  timeout :: nat

text \<open>The feature codes the filter of \<open>searchCities\<close> lets through.\<close>

definition isPopulatedPlace :: "GeocodingResult \<Rightarrow> bool" where
  "isPopulatedPlace result =
     (feature_code result = ''PPLA'' \<or>
      feature_code result = ''PPLA2'' \<or>
      feature_code result = ''PPLA3'' \<or>
      feature_code result = ''PPLA4'' \<or>
      feature_code result = ''PPLC'' \<or>
      feature_code result = ''PPL'' \<or>
      feature_code result = ''PPLF'' \<or>
      feature_code result = ''PPLG'' \<or>
      feature_code result = ''PPLL'' \<or>
      feature_code result = ''PPLR'' \<or>
      feature_code result = ''PPLS'' \<or>
      feature_code result = ''PPLW'')"

text \<open>
  The template literal of the id. It converts the two coordinates to text with the
  runtime's number-to-string conversion, which produces the shortest decimal text that
  reads back as the same double; that conversion is the parameter \<open>numberToString\<close>.
\<close>

definition encodeCityId :: "(number \<Rightarrow> string) \<Rightarrow> number \<Rightarrow> number \<Rightarrow> string \<Rightarrow> string \<Rightarrow> string" where
  "encodeCityId numberToString latitude' longitude' name' country' =
     numberToString latitude' @ '','' @ numberToString longitude' @ '':'' @ name' @ '':'' @ country'"

definition toCity :: "(number \<Rightarrow> string) \<Rightarrow> GeocodingResult \<Rightarrow> City" where
  "toCity numberToString result =
     \<lparr>id' = encodeCityId numberToString (GeocodingResult.latitude result) (GeocodingResult.longitude result)
              (GeocodingResult.name result) (GeocodingResult.country result),
      name = GeocodingResult.name result,
      country = GeocodingResult.country result,
      latitude = GeocodingResult.latitude result,
      longitude = GeocodingResult.longitude result\<rparr>"

text \<open>The \<open>catch\<close> block of \<open>searchCities\<close>.\<close>

definition searchCitiesError :: "thrown \<Rightarrow> OpenMeteoAPIError" where
  "searchCitiesError error =
     (case error of
        AxiosError code' response message' \<Rightarrow>
          if code' = Some ''ECONNABORTED'' then
            \<lparr>message = ''Request timeout while searching cities'', code = TIMEOUT, cause = None\<rparr>
          else if map_option fst response = Some 429 then
            \<lparr>message = ''Rate limit exceeded. Please try again later.'',
             code = RATE_LIMIT_EXCEEDED, cause = None\<rparr>
          else
            \<lparr>message = ''Failed to search cities: ''
                 @ (case response of
                      None \<Rightarrow> message'
                    | Some (status, statusText) \<Rightarrow> if statusText = [] then message' else statusText),
             code = UNKNOWN_ERROR, cause = Some error\<rparr>
      | OtherError \<Rightarrow>
          \<lparr>message = ''Unknown error occurred while searching cities'',
           code = UNKNOWN_ERROR, cause = Some error\<rparr>)"

text \<open>The argument of \<open>axios.get\<close> in \<open>searchCities\<close>.\<close>

definition searchRequest :: "string \<Rightarrow> GeocodingRequest" where
  "searchRequest query =
     \<lparr>url = GEOCODING_BASE_URL @ ''/search'', name = trim query, count = MAX_RESULTS,
      language = ''en'', format = ''json'', timeout = REQUEST_TIMEOUT_MS\<rparr>"

text \<open>
  \<open>searchCities\<close>. The geocoding collaborator is the function \<open>axios_get\<close>, from a
  request to the rejection or the data of the response. The network calls made so far
  are state: the function takes the list of them and returns it, with its own request
  appended when it makes one.
\<close>

definition searchCities ::
  "(number \<Rightarrow> string) \<Rightarrow> (GeocodingRequest \<Rightarrow> thrown + GeocodingResponse) \<Rightarrow> string
     \<Rightarrow> GeocodingRequest list \<Rightarrow> (OpenMeteoAPIError + City list) \<times> GeocodingRequest list" where
  "searchCities numberToString axios_get query calls =
     (if query = [] \<or> length (trim query) < 2 then
        (Inl \<lparr>message = ''Query must be at least 2 characters long'',
              code = BAD_USER_INPUT, cause = None\<rparr>, calls)
      else
        (let request = searchRequest query;
             calls' = calls @ [request]
         in case axios_get request of
              Inl error \<Rightarrow> (Inl (searchCitiesError error), calls')
            | Inr data \<Rightarrow>
                (case results data of
                   None \<Rightarrow> (Inr [], calls')
                 | Some results' \<Rightarrow>
                     (Inr (map (toCity numberToString) (filter isPopulatedPlace results')), calls'))))"

section \<open>Inputs of the test-suite and notions of the claims\<close>

text \<open>The mild, dry, calm day of the ranking tests.\<close>

definition sunnyDay :: DailyForecastSummary where
  "sunnyDay = \<lparr>date = ''2025-06-01'', maxTemp = 22, minTemp = 18, conditions = ''Clear sky'',
               precipitation = 0, windSpeed = 5\<rparr>"

text \<open>A ranking is in order when no activity is followed by one of a higher score.\<close>

definition nonIncreasing :: "Activity list \<Rightarrow> bool" where
  "nonIncreasing xs = sorted_wrt (\<lambda>a b. suitabilityScore a \<ge> suitabilityScore b) xs"

text \<open>The three tags of the temperature block of \<open>scoreActivity\<close>.\<close>

definition temperatureTags :: "string set" where
  "temperatureTags = {''ideal temperature'', ''too cold'', ''too warm''}"

text \<open>The activities of a list that have the score \<open>s\<close>, in the order of the list.\<close>

definition tiedAt :: "int \<Rightarrow> Activity list \<Rightarrow> Activity list" where
  "tiedAt s xs = filter (\<lambda>a. suitabilityScore a = s) xs"

text \<open>
  The floating-point string round-trip at one number: the text the runtime prints for
  \<open>x\<close> reads back as \<open>x\<close>, and it has no colon and no comma in it.
\<close>

definition printsFaithfully :: "(number \<Rightarrow> string) \<Rightarrow> number \<Rightarrow> bool" where
  "printsFaithfully numberToString x =
     (parseFloat (numberToString x) = x
      \<and> CHR '':'' \<notin> set (numberToString x) \<and> CHR '','' \<notin> set (numberToString x))"

text \<open>
  A first part of an id that lacks a coordinate string: split at the commas, its first
  or its second piece is absent or empty.
\<close>

definition missingCoordinate :: "string \<Rightarrow> bool" where
  "missingCoordinate coords =
     (falsy (element (split CHR '','' coords) 0) \<or> falsy (element (split CHR '','' coords) 1))"

text \<open>A collaborator that answers every request with a response without \<open>results\<close>.\<close>

definition noResults :: "GeocodingRequest \<Rightarrow> thrown + GeocodingResponse" where
  "noResults request = Inr \<lparr>results = None, generationtime_ms = 0.5\<rparr>"

text \<open>The geocoding result of the search test, and a collaborator that answers with it.\<close>

definition londonResult :: GeocodingResult where
  "londonResult =
     \<lparr>GeocodingResult.name = ''London'', latitude = Finite 51.5074, longitude = Finite (- 0.1278),
      country = ''United Kingdom'', feature_code = ''PPLC''\<rparr>"

definition londonOnly :: "GeocodingRequest \<Rightarrow> thrown + GeocodingResponse" where
  "londonOnly request = Inr \<lparr>results = Some [londonResult], generationtime_ms = 0.5\<rparr>"

text \<open>The number-to-string conversion at the two coordinates of London in the tests.\<close>

definition londonToString :: "number \<Rightarrow> string" where
  "londonToString x = (if x = Finite 51.5074 then ''51.5074'' else ''-0.1278'')"

section \<open>Properties of the runtime library\<close>

lemma insort_cmp_length: "length (insort_cmp cmp x xs) = Suc (length xs)"
  by (induction xs) auto

lemma sort_cmp_length: "length (sort_cmp cmp xs) = length xs"
  by (induction xs) (auto simp: sort_cmp_def insort_cmp_length)

lemma insort_cmp_set: "set (insort_cmp cmp x xs) = insert x (set xs)"
  by (induction xs) auto

lemma slice_from_0:
  "slice xs 0 e = take (nat (if e < 0 then int (length xs) + e else e)) xs"
  by (auto simp: slice_def Let_def max_def min_def)

lemma prefix_filter_take: "prefix (filter P (take n xs)) (filter P xs)"
proof -
  have "filter P xs = filter P (take n xs) @ filter P (drop n xs)"
    by (metis append_take_drop_id filter_append)
  then show ?thesis by (metis prefixI)
qed

section \<open>The ranking\<close>

lemma insort_byScore_nonIncreasing:
  "nonIncreasing xs \<Longrightarrow> nonIncreasing (insort_cmp byScoreDescending x xs)"
  unfolding nonIncreasing_def
  by (induction xs) (auto simp: byScoreDescending_def insort_cmp_set)

lemma sort_byScore_nonIncreasing: "nonIncreasing (sort_cmp byScoreDescending xs)"
proof (induction xs)
  case Nil
  show ?case by (simp add: sort_cmp_def nonIncreasing_def)
next
  case (Cons x xs)
  then show ?case
    using insort_byScore_nonIncreasing [of "sort_cmp byScoreDescending xs" x]
    by (simp add: sort_cmp_def)
qed

lemma insort_byScore_tiedAt:
  "tiedAt s (insort_cmp byScoreDescending x xs) = tiedAt s (x # xs)"
  unfolding tiedAt_def by (induction xs) (auto simp: byScoreDescending_def)

lemma sort_byScore_tiedAt: "tiedAt s (sort_cmp byScoreDescending xs) = tiedAt s xs"
proof (induction xs)
  case Nil
  show ?case by (simp add: sort_cmp_def)
next
  case (Cons x xs)
  have "tiedAt s (sort_cmp byScoreDescending (x # xs))
      = tiedAt s (x # sort_cmp byScoreDescending xs)"
    using insort_byScore_tiedAt [of s x "sort_cmp byScoreDescending xs"]
    by (simp add: sort_cmp_def)
  with Cons.IH show ?case by (simp add: tiedAt_def)
qed

lemma scoredActivities_length: "length (scoredActivities forecast) = 4"
  by (simp add: scoredActivities_def ACTIVITY_CONFIGS_def Let_def)

lemma scoreActivity_name:
  "Activity.name (scoreActivity config avgTemp hasRain isWindy p w) = ActivityConfig.name config"
  by (simp add: scoreActivity_def Let_def split_beta)

lemma scoredActivities_names:
  "map Activity.name (scoredActivities forecast)
     = [''skiing'', ''surfing'', ''indoor_sightseeing'', ''outdoor_sightseeing'']"
  by (simp add: scoredActivities_def Let_def scoreActivity_name ACTIVITY_CONFIGS_def)

lemma rank_as_take:
  "rankActivitiesForDay forecast top' =
     take (nat (if top' < 0 then 4 + top' else top'))
       (sort_cmp byScoreDescending (scoredActivities forecast))"
  by (simp add: rankActivitiesForDay_def slice_from_0 sort_cmp_length scoredActivities_length)

lemma rank_all: "rankActivitiesForDay forecast 4 = sort_cmp byScoreDescending (scoredActivities forecast)"
  by (simp add: rank_as_take sort_cmp_length scoredActivities_length)

lemmas engine_defs =
  rankActivitiesForDay_def scoredActivities_def ACTIVITY_CONFIGS_def scoreActivity_def
  temperatureTerm_def rainTerm_def windTerm_def indoorTerm_def engine_constants
  Math_round_def slice_def sort_cmp_def byScoreDescending_def Let_def

text \<open>The whole ranking of the mild day; surfing and indoor sightseeing tie at 80.\<close>

lemma rank_sunnyDay:
  "rankActivitiesForDay sunnyDay 4 =
     [\<lparr>Activity.name = ''outdoor_sightseeing'', suitabilityScore = 90,
        reasoning = ''ideal temperature, no rain''\<rparr>,
      \<lparr>Activity.name = ''surfing'', suitabilityScore = 80, reasoning = ''ideal temperature''\<rparr>,
      \<lparr>Activity.name = ''indoor_sightseeing'', suitabilityScore = 80,
        reasoning = ''ideal temperature''\<rparr>,
      \<lparr>Activity.name = ''skiing'', suitabilityScore = 30, reasoning = ''too warm, no rain''\<rparr>]"
  by (simp add: sunnyDay_def engine_defs)

text \<open>Two more days of the ranking tests, a rainy one and an extreme one.\<close>

lemma rank_rainy_day:
  "rankActivitiesForDay \<lparr>date = d, maxTemp = 18, minTemp = 15, conditions = c,
                         precipitation = 15, windSpeed = 10\<rparr> 2
     = [\<lparr>Activity.name = ''indoor_sightseeing'', suitabilityScore = 90,
         reasoning = ''ideal temperature, rain makes it more appealing''\<rparr>,
        \<lparr>Activity.name = ''outdoor_sightseeing'', suitabilityScore = 62,
         reasoning = ''ideal temperature, rain not ideal''\<rparr>]"
  by (simp add: engine_defs)

lemma rank_extreme_day:
  "rankActivitiesForDay \<lparr>date = d, maxTemp = 45, minTemp = 40, conditions = c,
                         precipitation = 50, windSpeed = 80\<rparr> 4
     = [\<lparr>Activity.name = ''indoor_sightseeing'', suitabilityScore = 45,
         reasoning = ''too warm, rain makes it more appealing, extreme weather favors indoor activities''\<rparr>,
        \<lparr>Activity.name = ''surfing'', suitabilityScore = 19,
         reasoning = ''too warm, good wind conditions''\<rparr>,
        \<lparr>Activity.name = ''skiing'', suitabilityScore = 0,
         reasoning = ''too warm, rain not ideal, windy conditions''\<rparr>,
        \<lparr>Activity.name = ''outdoor_sightseeing'', suitabilityScore = 0,
         reasoning = ''too warm, rain not ideal, windy conditions''\<rparr>]"
  by (simp add: engine_defs)

text \<open>
  The temperature block pushes a tag in each of its three branches and the later blocks
  only append, so the reasoning of a scored activity begins with a temperature tag.
\<close>

lemma join_Cons: "\<exists>rest. join sep (x # xs) = x @ rest"
  by (cases xs) auto

lemma temperatureTerm_tag:
  "\<exists>t. t \<in> temperatureTags \<and> snd (temperatureTerm config avgTemp (score, [])) = [t]"
  by (simp add: temperatureTerm_def temperatureTags_def Let_def)

lemma rainTerm_head: "snd p = t # ts \<Longrightarrow> \<exists>ts'. snd (rainTerm config hasRain p) = t # ts'"
  by (cases p) (simp add: rainTerm_def Let_def)

lemma windTerm_head: "snd p = t # ts \<Longrightarrow> \<exists>ts'. snd (windTerm config isWindy p) = t # ts'"
  by (cases p) (simp add: windTerm_def Let_def)

lemma indoorTerm_head: "snd p = t # ts \<Longrightarrow> \<exists>ts'. snd (indoorTerm config avgTemp p) = t # ts'"
  by (cases p) (simp add: indoorTerm_def Let_def)

lemma scoreActivity_tagged:
  "\<exists>t rest. t \<in> temperatureTags
     \<and> reasoning (scoreActivity config avgTemp hasRain isWindy p w) = t @ rest"
proof -
  let ?temperature = "temperatureTerm config avgTemp (BASE_SCORE, [])"
  obtain t where t: "t \<in> temperatureTags" "snd ?temperature = [t]"
    using temperatureTerm_tag by blast
  obtain ts1 where "snd (rainTerm config hasRain ?temperature) = t # ts1"
    using rainTerm_head [OF t(2)] by blast
  then obtain ts2 where
    "snd (windTerm config isWindy (rainTerm config hasRain ?temperature)) = t # ts2"
    using windTerm_head by blast
  then obtain ts3 where ts3:
    "snd (indoorTerm config avgTemp
           (windTerm config isWindy (rainTerm config hasRain ?temperature))) = t # ts3"
    using indoorTerm_head by blast
  obtain rest where rest: "join '', '' (t # ts3) = t @ rest"
    using join_Cons by blast
  have "t \<noteq> []"
    using t(1) by (auto simp: temperatureTags_def)
  then have "reasoning (scoreActivity config avgTemp hasRain isWindy p w) = t @ rest"
    using ts3 rest by (simp add: scoreActivity_def Let_def split_beta)
  with t(1) show ?thesis by blast
qed

text \<open>
  Claim C2, as stated: for every forecast and every integer \<open>N\<close> the ranking is sorted
  non-increasing by score and has length \<open>min(N, 4)\<close>. It fails for a negative \<open>N\<close>:
  with \<open>top = -1\<close> the slice drops the last activity and three are returned, while
  \<open>min(-1, 4)\<close> is \<open>-1\<close>.
\<close>

theorem rank_length_negative_top:
  "length (rankActivitiesForDay sunnyDay (- 1)) = 3
   \<and> int (length (rankActivitiesForDay sunnyDay (- 1))) \<noteq> min (- 1) 4"
  by (simp add: rank_as_take sort_cmp_length scoredActivities_length)

text \<open>
  Claim C2, amended: for every forecast and every integer \<open>N\<close> the ranking is sorted
  non-increasing by score, and for every \<open>N \<ge> 0\<close> its length is \<open>min(N, 4)\<close>.
\<close>

theorem rank_sorted_and_length:
  "nonIncreasing (rankActivitiesForDay forecast N)
   \<and> (0 \<le> N \<longrightarrow> int (length (rankActivitiesForDay forecast N)) = min N 4)"
proof
  show "nonIncreasing (rankActivitiesForDay forecast N)"
    using sort_byScore_nonIncreasing [of "scoredActivities forecast"]
    unfolding rank_as_take nonIncreasing_def by (rule sorted_wrt_take)
  show "0 \<le> N \<longrightarrow> int (length (rankActivitiesForDay forecast N)) = min N 4"
    by (auto simp: rank_as_take sort_cmp_length scoredActivities_length)
qed

theorem rank_sorted_and_length_witness:
  "(0::int) \<le> 2 \<and> nonIncreasing (rankActivitiesForDay sunnyDay 2)
   \<and> int (length (rankActivitiesForDay sunnyDay 2)) = min 2 4"
  using rank_sorted_and_length [of sunnyDay 2] by simp


text \<open>
  Claim C6: activities with equal scores keep the relative order of the profile table.
  For every score \<open>s\<close>, the activities of the result that have score \<open>s\<close> are, in this
  order, the first ones of the activities with score \<open>s\<close> as the table lists them (all
  of them when \<open>top\<close> does not cut the tie), and the table lists skiing, surfing,
  indoor sightseeing and outdoor sightseeing in this order.
\<close>

theorem rank_ties_in_table_order:
  "prefix (tiedAt s (rankActivitiesForDay forecast top')) (tiedAt s (scoredActivities forecast))
   \<and> map Activity.name (scoredActivities forecast)
       = [''skiing'', ''surfing'', ''indoor_sightseeing'', ''outdoor_sightseeing'']"
proof
  have "prefix (tiedAt s (rankActivitiesForDay forecast top'))
          (tiedAt s (sort_cmp byScoreDescending (scoredActivities forecast)))"
    unfolding rank_as_take tiedAt_def by (rule prefix_filter_take)
  then show "prefix (tiedAt s (rankActivitiesForDay forecast top'))
               (tiedAt s (scoredActivities forecast))"
    by (simp only: sort_byScore_tiedAt)
  show "map Activity.name (scoredActivities forecast)
          = [''skiing'', ''surfing'', ''indoor_sightseeing'', ''outdoor_sightseeing'']"
    by (simp add: scoredActivities_names)
qed

text \<open>
  Claim C7: for a day with \<open>maxTemp = 22\<close>, \<open>minTemp = 18\<close>, \<open>precipitation = 0\<close> and
  \<open>windSpeed = 5\<close>, whatever its date and conditions text, \<open>top = 1\<close> returns exactly one
  activity, \<open>outdoor_sightseeing\<close>, and its score, 90, is above 80.
\<close>

theorem rank_mild_day_top_1:
  "\<exists>a. rankActivitiesForDay \<lparr>date = d, maxTemp = 22, minTemp = 18, conditions = c,
                              precipitation = 0, windSpeed = 5\<rparr> 1 = [a]
       \<and> Activity.name a = ''outdoor_sightseeing''
       \<and> suitabilityScore a = 90 \<and> 80 < suitabilityScore a"
  by (simp add: engine_defs)

text \<open>
  Claim C10, as stated: for every \<open>top\<close> from \<open>-4\<close> to \<open>-1\<close> the result is not empty. It
  fails at \<open>top = -4\<close>: the slice ends at index \<open>4 - 4 = 0\<close> and nothing is returned.
\<close>

theorem rank_top_minus_4_empty: "rankActivitiesForDay sunnyDay (- 4) = []"
  by (simp add: rank_as_take)

text \<open>
  Claim C10, amended: for every forecast and every \<open>top\<close> from \<open>-4\<close> to \<open>-1\<close>, the call
  raises nothing and returns the first \<open>4 + top\<close> activities of the sorted ranking, so
  \<open>4 + top\<close> of them, not \<open>min(top, 4)\<close>; the result is empty only at \<open>top = -4\<close>.
\<close>

theorem rank_negative_top:
  assumes "- 4 \<le> top'" and "top' \<le> - 1"
  shows "rankActivitiesForDay forecast top'
           = take (nat (4 + top')) (rankActivitiesForDay forecast 4)
         \<and> int (length (rankActivitiesForDay forecast top')) = 4 + top'
         \<and> (rankActivitiesForDay forecast top' = [] \<longleftrightarrow> top' = - 4)"
proof -
  have eq: "rankActivitiesForDay forecast top'
      = take (nat (4 + top')) (rankActivitiesForDay forecast 4)"
    using assms by (simp add: rank_as_take [of forecast top'] rank_all)
  have len: "int (length (rankActivitiesForDay forecast top')) = 4 + top'"
    using assms by (simp add: rank_as_take sort_cmp_length scoredActivities_length)
  have "rankActivitiesForDay forecast top' = [] \<longleftrightarrow> top' = - 4"
    using len by (cases "rankActivitiesForDay forecast top'") auto
  with eq len show ?thesis by blast
qed

theorem rank_negative_top_witness:
  "(- 4 :: int) \<le> - 1 \<and> (- 1 :: int) \<le> - 1
   \<and> rankActivitiesForDay sunnyDay (- 1) = take 3 (rankActivitiesForDay sunnyDay 4)
   \<and> int (length (rankActivitiesForDay sunnyDay (- 1))) = 3
   \<and> rankActivitiesForDay sunnyDay (- 1) \<noteq> []"
proof -
  have range: "(- 4 :: int) \<le> - 1" "(- 1 :: int) \<le> - 1"
    by simp_all
  note at_minus_1 = rank_negative_top [OF range, of sunnyDay]
  have "rankActivitiesForDay sunnyDay (- 1) = take 3 (rankActivitiesForDay sunnyDay 4)"
    using at_minus_1 [THEN conjunct1] by simp
  moreover have "int (length (rankActivitiesForDay sunnyDay (- 1))) = 3"
    using at_minus_1 [THEN conjunct2, THEN conjunct1] by simp
  moreover have "rankActivitiesForDay sunnyDay (- 1) \<noteq> []"
    using at_minus_1 [THEN conjunct2, THEN conjunct2] by simp
  ultimately show ?thesis using range by blast
qed

section \<open>The codec\<close>

lemma split_not_Nil: "split sep s \<noteq> []"
  by (induction s) (auto split: list.splits)

lemma split_no_separator: "sep \<notin> set s \<Longrightarrow> split sep s = [s]"
  by (induction s) auto

lemma split_at_separator: "sep \<notin> set a \<Longrightarrow> split sep (a @ sep # b) = a # split sep b"
  by (induction a) auto

lemma parseFloat_empty: "parseFloat [] = NaN"
  by (simp add: parseFloat_def)

lemma valid_not_NaN: "isValidCoordinate la lo \<Longrightarrow> la \<noteq> NaN \<and> lo \<noteq> NaN"
  by (auto simp: isValidCoordinate_def)

lemmas parse_defs =
  parseFloat_def parseUnsigned_def parseExponent_def isWhiteSpace_def isDigit_def
  digitsValue_def isValidCoordinate_def number_ge_def

text \<open>
  What \<open>parseCityId\<close> does with an id of two comma-free, colon-free coordinate strings,
  a colon-free name and a colon-free country.
\<close>

lemma parseCityId_shape:
  assumes "CHR '':'' \<notin> set a" "CHR '','' \<notin> set a" "CHR '':'' \<notin> set b" "CHR '','' \<notin> set b"
    "CHR '':'' \<notin> set n" "CHR '':'' \<notin> set c"
  shows "parseCityId (a @ '','' @ b @ '':'' @ n @ '':'' @ c) =
     (if a = [] \<or> b = [] then Inl missingCoordinateError
      else if \<not> isValidCoordinate (parseFloat a) (parseFloat b) then Inl invalidCoordinateError
      else Inr \<lparr>CityInfo.latitude = parseFloat a, longitude = parseFloat b,
                name = n, country = c\<rparr>)"
proof -
  let ?coords = "a @ CHR '','' # b"
  have colon: "CHR '':'' \<notin> set ?coords"
    using assms by simp
  have "split CHR '':'' (n @ CHR '':'' # c) = [n, c]"
    using split_at_separator [OF assms(5), of c] split_no_separator [OF assms(6)] by simp
  then have parts: "split CHR '':'' (?coords @ CHR '':'' # n @ CHR '':'' # c) = [?coords, n, c]"
    using split_at_separator [OF colon, of "n @ CHR '':'' # c"] by simp
  have coords: "split CHR '','' ?coords = [a, b]"
    using split_at_separator [OF assms(2), of b] split_no_separator [OF assms(4)] by simp
  have id: "a @ '','' @ b @ '':'' @ n @ '':'' @ c = ?coords @ CHR '':'' # n @ CHR '':'' # c"
    by simp
  show ?thesis
    unfolding id parseCityId_def parts Let_def
    by (simp add: coords element_def)
qed

text \<open>The id of a city that \<open>searchCities\<close> returns is the template at its four fields.\<close>

lemma toCity_id:
  "id' (toCity numberToString result) =
     encodeCityId numberToString (GeocodingResult.latitude result)
       (GeocodingResult.longitude result) (GeocodingResult.name result)
       (GeocodingResult.country result)"
  by (simp add: toCity_def)

lemma london_valid: "isValidCoordinate (Finite 51.5074) (Finite (- 0.1278))"
  by (simp add: isValidCoordinate_def number_ge_def)

lemma london_prints:
  "printsFaithfully londonToString (Finite 51.5074)"
  "printsFaithfully londonToString (Finite (- 0.1278))"
  by (simp_all add: printsFaithfully_def londonToString_def parse_defs)

text \<open>
  Claim C1: for valid coordinates and a name and a country without a colon, decoding the
  encoded id gives back the four fields. The equality of the coordinates is up to the
  floating-point string round-trip: the hypotheses \<open>printsFaithfully\<close> say that the text
  the runtime prints for each coordinate reads back as that coordinate.
\<close>

theorem codec_roundtrip:
  assumes "isValidCoordinate lat lon"
    and "CHR '':'' \<notin> set name'" and "CHR '':'' \<notin> set country'"
    and "printsFaithfully numberToString lat" and "printsFaithfully numberToString lon"
  shows "parseCityId (encodeCityId numberToString lat lon name' country')
           = Inr \<lparr>CityInfo.latitude = lat, longitude = lon, name = name', country = country'\<rparr>"
proof -
  have "parseFloat (numberToString lat) \<noteq> NaN" "parseFloat (numberToString lon) \<noteq> NaN"
    using assms(1,4,5) valid_not_NaN [of lat lon] by (simp_all add: printsFaithfully_def)
  then have ne: "numberToString lat \<noteq> []" "numberToString lon \<noteq> []"
    using parseFloat_empty by auto
  have "parseCityId (numberToString lat @ '','' @ numberToString lon @ '':'' @ name' @ '':'' @ country')
      = Inr \<lparr>CityInfo.latitude = lat, longitude = lon, name = name', country = country'\<rparr>"
    using assms ne by (subst parseCityId_shape) (simp_all add: printsFaithfully_def)
  then show ?thesis by (simp only: encodeCityId_def)
qed

theorem codec_roundtrip_witness:
  "isValidCoordinate (Finite 51.5074) (Finite (- 0.1278))
   \<and> CHR '':'' \<notin> set ''London'' \<and> CHR '':'' \<notin> set ''United Kingdom''
   \<and> printsFaithfully londonToString (Finite 51.5074)
   \<and> printsFaithfully londonToString (Finite (- 0.1278))
   \<and> encodeCityId londonToString (Finite 51.5074) (Finite (- 0.1278)) ''London'' ''United Kingdom''
       = ''51.5074,-0.1278:London:United Kingdom''
   \<and> parseCityId ''51.5074,-0.1278:London:United Kingdom''
       = Inr \<lparr>CityInfo.latitude = Finite 51.5074, longitude = Finite (- 0.1278),
              name = ''London'', country = ''United Kingdom''\<rparr>"
proof -
  have names: "CHR '':'' \<notin> set ''London''" "CHR '':'' \<notin> set ''United Kingdom''"
    by simp_all
  have printed:
    "encodeCityId londonToString (Finite 51.5074) (Finite (- 0.1278)) ''London'' ''United Kingdom''
       = ''51.5074,-0.1278:London:United Kingdom''"
    by (simp add: encodeCityId_def londonToString_def)
  from codec_roundtrip [OF london_valid names london_prints]
  show ?thesis using london_valid names london_prints printed by simp
qed

text \<open>
  Claim C4, as stated: an id that is not of three colon-separated parts fails with an
  \<open>InvalidFormat\<close> error, distinct from the \<open>InvalidCoordinates\<close> error of the range
  failures. The program has no such code: the format failure of \<open>invalid-format\<close> and the
  range failure of \<open>999,999:Atlantis:Ocean\<close> carry the same code, \<open>INVALID_COORDINATES\<close>.
\<close>

theorem parseCityId_format_error_code:
  "parseCityId ''invalid-format'' = Inl formatError
   \<and> parseCityId ''999,999:Atlantis:Ocean'' = Inl invalidCoordinateError
   \<and> code formatError = INVALID_COORDINATES
   \<and> code formatError = code invalidCoordinateError"
  by (simp add: parseCityId_def element_def parse_defs formatError_def
        invalidCoordinateError_def)

text \<open>
  Claim C4, amended: an id that does not split at the colons into exactly three parts
  fails with the error of the message \<open>Invalid city ID format ...\<close>; an id of three parts
  whose first part lacks a coordinate string fails with the error of the message
  \<open>Invalid coordinates in city ID. Expected format: "lat,lon"\<close>. Both carry the code
  \<open>INVALID_COORDINATES\<close>, as the range failure does; they differ from it in the message.
\<close>

theorem parseCityId_format_errors:
  "(length (split CHR '':'' cityId) \<noteq> 3 \<longrightarrow> parseCityId cityId = Inl formatError)
   \<and> (length (split CHR '':'' cityId) = 3 \<and> missingCoordinate (split CHR '':'' cityId ! 0)
        \<longrightarrow> parseCityId cityId = Inl missingCoordinateError)
   \<and> code formatError = INVALID_COORDINATES
   \<and> code missingCoordinateError = INVALID_COORDINATES
   \<and> code invalidCoordinateError = INVALID_COORDINATES
   \<and> message formatError \<noteq> message invalidCoordinateError
   \<and> message missingCoordinateError \<noteq> message invalidCoordinateError"
  by (simp add: parseCityId_def missingCoordinate_def Let_def formatError_def
        missingCoordinateError_def invalidCoordinateError_def)

theorem parseCityId_format_errors_witness:
  "length (split CHR '':'' ''invalid-format'') \<noteq> 3
   \<and> parseCityId ''invalid-format'' = Inl formatError
   \<and> length (split CHR '':'' ''51.5:London:UK'') = 3
   \<and> missingCoordinate (split CHR '':'' ''51.5:London:UK'' ! 0)
   \<and> parseCityId ''51.5:London:UK'' = Inl missingCoordinateError"
proof -
  have parts: "length (split CHR '':'' ''invalid-format'') \<noteq> 3"
    by simp
  have missing: "length (split CHR '':'' ''51.5:London:UK'') = 3
      \<and> missingCoordinate (split CHR '':'' ''51.5:London:UK'' ! 0)"
    by (simp add: missingCoordinate_def element_def)
  from parseCityId_format_errors [of "''invalid-format''"] parts
  have "parseCityId ''invalid-format'' = Inl formatError"
    by blast
  moreover from parseCityId_format_errors [of "''51.5:London:UK''"] missing
  have "parseCityId ''51.5:London:UK'' = Inl missingCoordinateError"
    by blast
  ultimately show ?thesis using parts missing by blast
qed



text \<open>
  \<open>parseFloat\<close> reads a numeric prefix and ignores the rest, so a coordinate string
  such as \<open>12abc\<close> is numeric in the sense above and the id is accepted.
\<close>

lemma parseCityId_numeric_prefix:
  "parseCityId ''12abc,5:X:Y''
     = Inr \<lparr>CityInfo.latitude = Finite 12, longitude = Finite 5, name = ''X'', country = ''Y''\<rparr>"
  by (simp add: parseCityId_def element_def parse_defs)

section \<open>The geocoding adapter\<close>

text \<open>The search test: one populated place comes back as one city with its rich id.\<close>

lemma searchCities_london:
  "searchCities londonToString londonOnly ''London'' []
     = (Inr [\<lparr>id' = ''51.5074,-0.1278:London:United Kingdom'', name = ''London'',
              country = ''United Kingdom'', latitude = Finite 51.5074,
              longitude = Finite (- 0.1278)\<rparr>],
        [searchRequest ''London''])"
  by (simp add: searchCities_def londonOnly_def londonResult_def isPopulatedPlace_def
        toCity_def encodeCityId_def londonToString_def trim_def isWhiteSpace_def Let_def)

text \<open>
  Claim C8: a query whose trimmed length is below 2, the empty one included, fails with
  the code \<open>BAD_USER_INPUT\<close> and no network call is made: the list of calls comes back
  as it was, whatever the collaborator would have answered.
\<close>

theorem searchCities_short_query:
  "length (trim query) < 2 \<Longrightarrow>
   searchCities numberToString axios_get query calls =
     (Inl \<lparr>message = ''Query must be at least 2 characters long'', code = BAD_USER_INPUT,
           cause = None\<rparr>, calls)"
  by (simp add: searchCities_def)

theorem searchCities_short_query_witness:
  "length (trim '' a '') < 2
   \<and> searchCities londonToString londonOnly '' a '' [] =
       (Inl \<lparr>message = ''Query must be at least 2 characters long'', code = BAD_USER_INPUT,
             cause = None\<rparr>, [])"
proof -
  have short: "length (trim '' a '') < 2"
    by (simp add: trim_def isWhiteSpace_def)
  from searchCities_short_query [OF short, of londonToString londonOnly "[]"] short
  show ?thesis by blast
qed

text \<open>
  Claim C9: when the collaborator answers the request of a query of at least two
  characters with a response that has no \<open>results\<close> field, \<open>searchCities\<close> returns the
  empty sequence and no error, after that one network call.
\<close>

theorem searchCities_absent_results:
  assumes "2 \<le> length (trim query)"
    and "axios_get (searchRequest query) = Inr data"
    and "results data = None"
  shows "searchCities numberToString axios_get query calls
           = (Inr [], calls @ [searchRequest query])"
proof -
  have "query \<noteq> []"
    using assms(1) by (auto simp: trim_def)
  then show ?thesis
    using assms by (simp add: searchCities_def Let_def)
qed

theorem searchCities_absent_results_witness:
  "2 \<le> length (trim ''London'')
   \<and> noResults (searchRequest ''London'') = Inr \<lparr>results = None, generationtime_ms = 0.5\<rparr>
   \<and> results \<lparr>results = None, generationtime_ms = 0.5\<rparr> = None
   \<and> searchCities londonToString noResults ''London'' [] = (Inr [], [searchRequest ''London''])"
proof -
  have long: "2 \<le> length (trim ''London'')"
    by (simp add: trim_def isWhiteSpace_def)
  have answer:
    "noResults (searchRequest ''London'') = Inr \<lparr>results = None, generationtime_ms = 0.5\<rparr>"
    by (simp add: noResults_def)
  have absent: "results \<lparr>results = None, generationtime_ms = 0.5\<rparr> = None"
    by simp
  from searchCities_absent_results
         [of "''London''" noResults "\<lparr>results = None, generationtime_ms = 0.5\<rparr>"
             londonToString "[]"]
       long answer absent
  show ?thesis by simp
qed

end
